theory Spec2Isabelle
  imports Main "HOL-Library.Multiset" "HOL-Library.Word"
begin

section \<open>The external job descriptor of \<^verbatim>\<open>ext_job.c\<close>\<close>

text \<open>
  A shallow embedding of \<^verbatim>\<open>devel/libecl_queue/src/ext_job.c\<close>: the descriptor
  struct, its allocator and mutators, and the printer \<^verbatim>\<open>ext_job_python_fprintf\<close>
  that renders a descriptor as a Python-like literal.

  Conventions of the embedding:
  \<^item> a \<^verbatim>\<open>char *\<close> that may be \<^verbatim>\<open>NULL\<close> is a \<open>string option\<close>
    (\<open>None\<close> is \<^verbatim>\<open>NULL\<close>); the \<^verbatim>\<open>const char *\<close> arguments of the mutators
    are \<open>string\<close>s, the text up to the terminating NUL;
  \<^item> \<^verbatim>\<open>char ** argv\<close> is the list of its slots, \<^verbatim>\<open>argc\<close> is kept as the
    separate field it is in the struct; the C \<^verbatim>\<open>int\<close>s \<^verbatim>\<open>argc\<close>, \<^verbatim>\<open>size\<close>,
    \<^verbatim>\<open>i\<close> and \<^verbatim>\<open>indent\<close> are mathematical integers (a count of
    \<open>2 ^ 31\<close> arguments is outside the model), \<^verbatim>\<open>priority\<close> is a 32-bit word;
  \<^item> the \<^verbatim>\<open>FILE *\<close> is a stream state of any type together with its write
    operation, which returns what \<^verbatim>\<open>fprintf\<close> returns and the next state;
  \<^item> a read that C leaves undefined (a slot outside the array, \<^verbatim>\<open>%s\<close> given
    \<^verbatim>\<open>NULL\<close>, a key missing from the table) is a \<open>fault\<close> value;
  \<^item> each \<^verbatim>\<open>for\<close> loop is a recursive function of its counter \<open>i\<close> and the
    stream; the source's variables \<^verbatim>\<open>id\<close> and \<^verbatim>\<open>size\<close> are \<open>ident\<close> and
    \<open>sz\<close> here, and the static functions lose their leading underscores.
\<close>

subsection \<open>Collaborators: string utilities, hash table, output stream\<close>

text \<open>
  The code of the string-keyed table (\<^verbatim>\<open>hash.h\<close>) and of the string and memory
  helpers (\<^verbatim>\<open>util.h\<close>) is not part of the given source. The specification asks of
  the table insert-or-replace by key, lookup by key, the key count, and an enumeration
  of all keys in an order the table chooses.
\<close>

text \<open>
  Modelled from the spec: the table type of \<^verbatim>\<open>hash.h\<close>. A table is the list of its
  entries, in order of first insertion.
\<close>

type_synonym hash_type = "(string \<times> string) list"

text \<open>Modelled from the spec: \<^verbatim>\<open>hash_alloc\<close> returns an empty table.\<close>

definition hash_alloc :: "hash_type" where
  "hash_alloc = []"

text \<open>
  Modelled from the spec: \<^verbatim>\<open>hash_insert_hash_owned_ref\<close> inserts the entry, or
  replaces the value of an entry with the same key ("insert-or-replace by key").
\<close>

fun hash_insert_hash_owned_ref :: "hash_type \<Rightarrow> string \<Rightarrow> string \<Rightarrow> hash_type" where
  "hash_insert_hash_owned_ref [] key v = [(key, v)]"
| "hash_insert_hash_owned_ref ((k, w) # h) key v =
     (if k = key then (k, v) # h else (k, w) # hash_insert_hash_owned_ref h key v)"

text \<open>
  Modelled from the spec: \<^verbatim>\<open>hash_get\<close> is the lookup by key; \<open>None\<close> when the
  table has no such key.
\<close>

definition hash_get :: "hash_type \<Rightarrow> string \<Rightarrow> string option" where
  "hash_get h key = map_of h key"

text \<open>Modelled from the spec: \<^verbatim>\<open>hash_get_size\<close> is the key count.\<close>

definition hash_get_size :: "hash_type \<Rightarrow> int" where
  "hash_get_size h = int (length h)"

text \<open>
  Modelled from the spec: \<^verbatim>\<open>hash_alloc_keylist\<close> enumerates all keys, in an order
  that is the table's business. The order is the parameter \<open>ord\<close>, applied to the
  keys in order of first insertion.
\<close>

type_synonym key_order = "string list \<Rightarrow> string list"

definition hash_alloc_keylist :: "key_order \<Rightarrow> hash_type \<Rightarrow> string list" where
  "hash_alloc_keylist ord h = ord (map fst h)"

text \<open>
  The contract of the enumeration: every key of the table, each once. Which order
  is left to the table.
\<close>

definition key_order_ok :: "key_order \<Rightarrow> bool" where
  "key_order_ok ord \<longleftrightarrow> (\<forall>ks. mset (ord ks) = mset ks)"

text \<open>
  Modelled from the spec: \<^verbatim>\<open>util_alloc_string_copy\<close> of \<^verbatim>\<open>util.h\<close> returns a
  fresh copy of its argument. Allocation failure aborts the process and is not
  modelled, here and below.
\<close>

definition util_alloc_string_copy :: "string \<Rightarrow> string option" where
  "util_alloc_string_copy src = Some src"

text \<open>
  Modelled from the spec: \<^verbatim>\<open>util_realloc_string_copy\<close> of \<^verbatim>\<open>util.h\<close> replaces
  the old string by a copy of the new one ("replaces the corresponding optional field
  unconditionally").
\<close>

definition util_realloc_string_copy :: "string option \<Rightarrow> string \<Rightarrow> string option" where
  "util_realloc_string_copy old_string src = Some src"

text \<open>
  Modelled from the spec: \<^verbatim>\<open>util_realloc\<close> of \<^verbatim>\<open>util.h\<close> resizes an array,
  here to \<open>n\<close> slots (the source passes the size in bytes). The slots that fit are
  kept; a slot that is added holds no string yet.
\<close>

definition util_realloc :: "string option list \<Rightarrow> int \<Rightarrow> string option list" where
  "util_realloc p n = take (nat n) p @ replicate (nat n - length p) None"

text \<open>
  The output stream. A writer takes the stream state and the formatted text of one
  \<^verbatim>\<open>fprintf\<close> call and returns the call's return value and the next state.
  Every call site of the source drops the return value, and so does \<open>fprintf\<close>.
\<close>

type_synonym 's writer = "'s \<Rightarrow> string \<Rightarrow> int \<times> 's"

definition fprintf :: "'s writer \<Rightarrow> 's \<Rightarrow> string \<Rightarrow> 's" where
  "fprintf wr stream text = snd (wr stream text)"

text \<open>A stream that never fails: its state is the text written so far.\<close>

definition file_write :: "string writer" where
  "file_write stream text = (int (length text), stream @ text)"

text \<open>A stream that is broken: every write fails and nothing is stored.\<close>

definition broken_write :: "string writer" where
  "broken_write stream text = (- 1, stream)"

subsection \<open>The descriptor\<close>

record ext_job =
  priority :: "32 word"
  portable_exe :: "string option"
  init_code :: "string option"
  target_file :: "string option"
  stdout_file :: "string option"
  stdin_file :: "string option"
  stderr_file :: "string option"
  argv :: "string option list"
  argc :: int
  platform_exe :: hash_type
  environment :: hash_type

definition ext_job_alloc :: "32 word \<Rightarrow> ext_job" where
  "ext_job_alloc p =
     \<lparr> priority = p,
       portable_exe = None,
       init_code = None,
       target_file = None,
       stdout_file = None,
       stdin_file = None,
       stderr_file = None,
       argv = [],
       argc = 0,
       platform_exe = hash_alloc,
       environment = hash_alloc \<rparr>"

definition ext_job_set_portable_exe :: "ext_job \<Rightarrow> string \<Rightarrow> ext_job" where
  "ext_job_set_portable_exe ext_job s =
     ext_job\<lparr>portable_exe := util_realloc_string_copy (portable_exe ext_job) s\<rparr>"

definition ext_job_set_init_code :: "ext_job \<Rightarrow> string \<Rightarrow> ext_job" where
  "ext_job_set_init_code ext_job s =
     ext_job\<lparr>init_code := util_realloc_string_copy (init_code ext_job) s\<rparr>"

definition ext_job_set_stdout_file :: "ext_job \<Rightarrow> string \<Rightarrow> ext_job" where
  "ext_job_set_stdout_file ext_job s =
     ext_job\<lparr>stdout_file := util_realloc_string_copy (stdout_file ext_job) s\<rparr>"

definition ext_job_set_target_file :: "ext_job \<Rightarrow> string \<Rightarrow> ext_job" where
  "ext_job_set_target_file ext_job s =
     ext_job\<lparr>target_file := util_realloc_string_copy (target_file ext_job) s\<rparr>"

definition ext_job_set_stdin_file :: "ext_job \<Rightarrow> string \<Rightarrow> ext_job" where
  "ext_job_set_stdin_file ext_job s =
     ext_job\<lparr>stdin_file := util_realloc_string_copy (stdin_file ext_job) s\<rparr>"

definition ext_job_set_stderr_file :: "ext_job \<Rightarrow> string \<Rightarrow> ext_job" where
  "ext_job_set_stderr_file ext_job s =
     ext_job\<lparr>stderr_file := util_realloc_string_copy (stderr_file ext_job) s\<rparr>"

definition ext_job_add_platform_exe :: "ext_job \<Rightarrow> string \<Rightarrow> string \<Rightarrow> ext_job" where
  "ext_job_add_platform_exe ext_job platform exe =
     ext_job\<lparr>platform_exe := hash_insert_hash_owned_ref (platform_exe ext_job) platform exe\<rparr>"

definition ext_job_add_environment :: "ext_job \<Rightarrow> string \<Rightarrow> string \<Rightarrow> ext_job" where
  "ext_job_add_environment ext_job platform exe =
     ext_job\<lparr>environment := hash_insert_hash_owned_ref (environment ext_job) platform exe\<rparr>"

text \<open>
  \<^verbatim>\<open>ext_job_add_arg\<close>: the array is resized to \<open>argc + 1\<close> slots, the copy
  of the argument is stored in slot \<open>argc\<close>, and \<open>argc\<close> is incremented.
\<close>

definition ext_job_add_arg :: "ext_job \<Rightarrow> string \<Rightarrow> ext_job" where
  "ext_job_add_arg ext_job arg =
     (let a = util_realloc (argv ext_job) (argc ext_job + 1);
          a = a[nat (argc ext_job) := util_alloc_string_copy arg]
      in ext_job\<lparr>argv := a, argc := argc ext_job + 1\<rparr>)"

subsection \<open>The printer\<close>

datatype fault = OutOfBounds | NullString | KeyMissing

definition fprintf_python_string :: "'s writer \<Rightarrow> 's \<Rightarrow> string \<Rightarrow> string option \<Rightarrow> 's" where
  \<open>fprintf_python_string wr stream ident v =
     (let stream = fprintf wr stream (''"'' @ ident @ ''" : '')
      in case v of
           None \<Rightarrow> fprintf wr stream ''None''
         | Some s \<Rightarrow> fprintf wr stream (''"'' @ s @ ''"''))\<close>

function fprintf_python_list_loop ::
  "'s writer \<Rightarrow> string option list \<Rightarrow> int \<Rightarrow> int \<Rightarrow> 's \<Rightarrow> fault + 's" where
  \<open>fprintf_python_list_loop wr list sz i stream =
     (if i < sz then
        (if i < 0 \<or> int (length list) \<le> i then Inl OutOfBounds
         else case list ! nat i of
                None \<Rightarrow> Inl NullString
              | Some s \<Rightarrow>
                  fprintf_python_list_loop wr list sz (i + 1)
                    (let stream = fprintf wr stream (''"'' @ s @ ''"'')
                     in if i < sz - 1 then fprintf wr stream '','' else stream))
      else Inr stream)\<close>
  by pat_completeness auto
termination
  by (relation "measure (\<lambda>(wr, list, sz, i, stream). nat (sz - i))") auto

definition fprintf_python_list ::
  "'s writer \<Rightarrow> 's \<Rightarrow> string \<Rightarrow> string option list \<Rightarrow> int \<Rightarrow> fault + 's" where
  \<open>fprintf_python_list wr stream ident list sz =
     (let stream = fprintf wr stream (''"'' @ ident @ ''" : '');
          stream = fprintf wr stream ''[''
      in case fprintf_python_list_loop wr list sz 0 stream of
           Inl e \<Rightarrow> Inl e
         | Inr stream \<Rightarrow> Inr (fprintf wr stream '']''))\<close>

function fprintf_python_hash_loop ::
  "'s writer \<Rightarrow> hash_type \<Rightarrow> string list \<Rightarrow> int \<Rightarrow> int \<Rightarrow> 's \<Rightarrow> fault + 's" where
  \<open>fprintf_python_hash_loop wr hash key_list sz i stream =
     (if i < sz then
        (if i < 0 \<or> int (length key_list) \<le> i then Inl OutOfBounds
         else case hash_get hash (key_list ! nat i) of
                None \<Rightarrow> Inl KeyMissing
              | Some v \<Rightarrow>
                  fprintf_python_hash_loop wr hash key_list sz (i + 1)
                    (let stream = fprintf wr stream
                           (''"'' @ key_list ! nat i @ ''":"'' @ v @ ''"'')
                     in if i < sz - 1 then fprintf wr stream '','' else stream))
      else Inr stream)\<close>
  by pat_completeness auto
termination
  by (relation "measure (\<lambda>(wr, hash, key_list, sz, i, stream). nat (sz - i))") auto

definition fprintf_python_hash ::
  "key_order \<Rightarrow> 's writer \<Rightarrow> 's \<Rightarrow> string \<Rightarrow> hash_type \<Rightarrow> fault + 's" where
  \<open>fprintf_python_hash ord wr stream ident hash =
     (let sz = hash_get_size hash;
          key_list = hash_alloc_keylist ord hash;
          stream = fprintf wr stream (''"'' @ ident @ ''" : '');
          stream = fprintf wr stream ''{''
      in case fprintf_python_hash_loop wr hash key_list sz 0 stream of
           Inl e \<Rightarrow> Inl e
         | Inr stream \<Rightarrow> Inr (fprintf wr stream ''}''))\<close>

definition end_line :: "'s writer \<Rightarrow> 's \<Rightarrow> 's" where
  \<open>end_line wr stream = fprintf wr stream '',\<newline>''\<close>

function indent_loop :: "'s writer \<Rightarrow> int \<Rightarrow> int \<Rightarrow> 's \<Rightarrow> 's" where
  \<open>indent_loop wr n i stream =
     (if i < n then indent_loop wr n (i + 1) (fprintf wr stream '' '')
      else stream)\<close>
  by pat_completeness auto
termination
  by (relation "measure (\<lambda>(wr, n, i, stream). nat (n - i))") auto

definition indent :: "'s writer \<Rightarrow> 's \<Rightarrow> int \<Rightarrow> 's" where
  "indent wr stream n = indent_loop wr n 0 stream"

definition ext_job_python_fprintf ::
  "key_order \<Rightarrow> 's writer \<Rightarrow> ext_job \<Rightarrow> 's \<Rightarrow> fault + 's" where
  \<open>ext_job_python_fprintf ord wr ext_job stream =
     (let stream = fprintf wr stream '' {'';
          stream = indent wr stream 0;
          stream = fprintf_python_string wr stream ''portable_exe'' (portable_exe ext_job);
          stream = end_line wr stream;
          stream = indent wr stream 2;
          stream = fprintf_python_string wr stream ''init_code'' (init_code ext_job);
          stream = end_line wr stream;
          stream = indent wr stream 2;
          stream = fprintf_python_string wr stream ''target_file'' (target_file ext_job);
          stream = end_line wr stream;
          stream = indent wr stream 2;
          stream = fprintf_python_string wr stream ''stdout'' (stdout_file ext_job);
          stream = end_line wr stream;
          stream = indent wr stream 2;
          stream = fprintf_python_string wr stream ''stderr'' (stderr_file ext_job);
          stream = end_line wr stream;
          stream = indent wr stream 2;
          stream = fprintf_python_string wr stream ''stdin'' (stdin_file ext_job);
          stream = end_line wr stream;
          stream = indent wr stream 2
      in case fprintf_python_list wr stream ''argList'' (argv ext_job) (argc ext_job) of
           Inl e \<Rightarrow> Inl e
         | Inr stream \<Rightarrow>
             (let stream = end_line wr stream;
                  stream = indent wr stream 2
              in case fprintf_python_hash ord wr stream ''environment'' (environment ext_job) of
                   Inl e \<Rightarrow> Inl e
                 | Inr stream \<Rightarrow>
                     (let stream = end_line wr stream;
                          stream = indent wr stream 2
                      in case fprintf_python_hash ord wr stream ''platform_exe''
                                (platform_exe ext_job) of
                           Inl e \<Rightarrow> Inl e
                         | Inr stream \<Rightarrow> Inr (fprintf wr stream ''}\<newline>''))))\<close>

declare fprintf_python_list_loop.simps [simp del]
declare fprintf_python_hash_loop.simps [simp del]
declare indent_loop.simps [simp del]

subsection \<open>Well-formed descriptors\<close>

text \<open>
  What the allocator establishes and every mutator keeps: \<open>argc\<close> is the number
  of slots of \<open>argv\<close>, every slot holds a string, and the keys of each table are
  unique.
\<close>

definition hash_ok :: "hash_type \<Rightarrow> bool" where
  "hash_ok h \<longleftrightarrow> distinct (map fst h)"

definition ext_job_ok :: "ext_job \<Rightarrow> bool" where
  "ext_job_ok ext_job \<longleftrightarrow>
     argc ext_job = int (length (argv ext_job)) \<and>
     list_all (\<lambda>a. a \<noteq> None) (argv ext_job) \<and>
     hash_ok (platform_exe ext_job) \<and> hash_ok (environment ext_job)"

text \<open>The argument strings of a descriptor, and the entries of a table in enumeration order.\<close>

definition ext_job_args :: "ext_job \<Rightarrow> string list" where
  "ext_job_args ext_job = List.map_filter (\<lambda>a. a) (argv ext_job)"

definition hash_items :: "key_order \<Rightarrow> hash_type \<Rightarrow> (string \<times> string) list" where
  "hash_items ord h =
     List.map_filter (\<lambda>k. map_option (Pair k) (hash_get h k)) (hash_alloc_keylist ord h)"

subsection \<open>The emitted text format, as the specification words it\<close>

text \<open>
  Section 6 of the specification: an unset optional string is the token \<^verbatim>\<open>None\<close>,
  a set one is double-quoted without escaping; a list is bracketed, its items
  double-quoted and comma-separated; a mapping is braced, its entries
  \<^verbatim>\<open>"key":"value"\<close> comma-separated; the first field has no leading spaces, the
  others two; the record opens with a space and a brace and closes with a brace and a
  newline.
\<close>

definition quote :: "string \<Rightarrow> string" where
  \<open>quote s = ''"'' @ s @ ''"''\<close>

definition entry :: "string \<times> string \<Rightarrow> string" where
  \<open>entry kv = quote (fst kv) @ '':'' @ quote (snd kv)\<close>

fun commas :: "string list \<Rightarrow> string" where
  "commas [] = []"
| "commas [x] = x"
| "commas (x # y # ys) = x @ '','' @ commas (y # ys)"

definition spec_string :: "string \<Rightarrow> string option \<Rightarrow> string" where
  \<open>spec_string ident v =
     quote ident @ '' : '' @ (case v of None \<Rightarrow> ''None'' | Some s \<Rightarrow> quote s)\<close>

definition spec_list :: "string \<Rightarrow> string list \<Rightarrow> string" where
  \<open>spec_list ident xs = quote ident @ '' : '' @ ''['' @ commas (map quote xs) @ '']''\<close>

definition spec_hash :: "string \<Rightarrow> (string \<times> string) list \<Rightarrow> string" where
  \<open>spec_hash ident kvs = quote ident @ '' : '' @ ''{'' @ commas (map entry kvs) @ ''}''\<close>

definition spec_record :: "key_order \<Rightarrow> ext_job \<Rightarrow> string" where
  \<open>spec_record ord ext_job =
     '' {'' @ spec_string ''portable_exe'' (portable_exe ext_job) @ '',\<newline>'' @
     ''  '' @ spec_string ''init_code'' (init_code ext_job) @ '',\<newline>'' @
     ''  '' @ spec_string ''target_file'' (target_file ext_job) @ '',\<newline>'' @
     ''  '' @ spec_string ''stdout'' (stdout_file ext_job) @ '',\<newline>'' @
     ''  '' @ spec_string ''stderr'' (stderr_file ext_job) @ '',\<newline>'' @
     ''  '' @ spec_string ''stdin'' (stdin_file ext_job) @ '',\<newline>'' @
     ''  '' @ spec_list ''argList'' (ext_job_args ext_job) @ '',\<newline>'' @
     ''  '' @ spec_hash ''environment'' (hash_items ord (environment ext_job)) @ '',\<newline>'' @
     ''  '' @ spec_hash ''platform_exe'' (hash_items ord (platform_exe ext_job)) @ ''}\<newline>''\<close>

subsection \<open>The write requests of the printer\<close>

text \<open>
  The texts the printer hands to \<^verbatim>\<open>fprintf\<close>, one per call, in call order.
  They do not depend on the stream: no return value of a write is looked at.
\<close>

fun sep :: "string list \<Rightarrow> string list" where
  "sep [] = []"
| "sep [x] = [x]"
| "sep (x # y # ys) = x # '','' # sep (y # ys)"

definition string_requests :: "string \<Rightarrow> string option \<Rightarrow> string list" where
  \<open>string_requests ident v =
     [quote ident @ '' : '', (case v of None \<Rightarrow> ''None'' | Some s \<Rightarrow> quote s)]\<close>

definition list_requests :: "string \<Rightarrow> string list \<Rightarrow> string list" where
  \<open>list_requests ident xs = [quote ident @ '' : '', ''[''] @ sep (map quote xs) @ ['']'']\<close>

definition hash_requests :: "string \<Rightarrow> (string \<times> string) list \<Rightarrow> string list" where
  \<open>hash_requests ident kvs = [quote ident @ '' : '', ''{''] @ sep (map entry kvs) @ [''}'']\<close>

definition ext_job_requests :: "key_order \<Rightarrow> ext_job \<Rightarrow> string list" where
  \<open>ext_job_requests ord ext_job =
     ['' {''] @ string_requests ''portable_exe'' (portable_exe ext_job) @
     ['',\<newline>'', '' '', '' ''] @ string_requests ''init_code'' (init_code ext_job) @
     ['',\<newline>'', '' '', '' ''] @ string_requests ''target_file'' (target_file ext_job) @
     ['',\<newline>'', '' '', '' ''] @ string_requests ''stdout'' (stdout_file ext_job) @
     ['',\<newline>'', '' '', '' ''] @ string_requests ''stderr'' (stderr_file ext_job) @
     ['',\<newline>'', '' '', '' ''] @ string_requests ''stdin'' (stdin_file ext_job) @
     ['',\<newline>'', '' '', '' ''] @ list_requests ''argList'' (ext_job_args ext_job) @
     ['',\<newline>'', '' '', '' ''] @
       hash_requests ''environment'' (hash_items ord (environment ext_job)) @
     ['',\<newline>'', '' '', '' ''] @
       hash_requests ''platform_exe'' (hash_items ord (platform_exe ext_job)) @
     [''}\<newline>'']\<close>

section \<open>Properties\<close>

subsection \<open>The loops of the printer\<close>

lemma sep_Cons: "sep (x # r) = x # (if r = [] then [] else '','' # sep r)"
  by (cases r) simp_all

lemma concat_sep: "concat (sep xs) = commas xs"
  by (induction xs rule: sep.induct) simp_all

lemma foldl_file_write: "foldl (fprintf file_write) st cs = st @ concat cs"
  by (induction cs arbitrary: st) (simp_all add: fprintf_def file_write_def)

lemma indent_loop_requests:
  "indent_loop wr n i st = foldl (fprintf wr) st (replicate (nat (n - i)) '' '')"
proof (induction wr n i st rule: indent_loop.induct)
  case (1 wr n i st)
  show ?case
  proof (cases "i < n")
    case True
    then have "nat (n - i) = Suc (nat (n - (i + 1)))" by simp
    with True 1 show ?thesis
      by (subst indent_loop.simps) simp
  next
    case False
    then show ?thesis by (subst indent_loop.simps) simp
  qed
qed

lemma indent_requests: "indent wr st n = foldl (fprintf wr) st (replicate (nat n) '' '')"
  by (simp add: indent_def indent_loop_requests)

lemma list_loop_requests:
  assumes "0 \<le> i" "sz = int (length xs)"
  shows "fprintf_python_list_loop wr (map Some xs) sz i st =
         Inr (foldl (fprintf wr) st (sep (map quote (drop (nat i) xs))))"
  using assms
proof (induction wr "map Some xs" sz i st rule: fprintf_python_list_loop.induct)
  case (1 wr sz i st)
  show ?case
  proof (cases "i < sz")
    case True
    with 1 have lt: "nat i < length xs" by simp
    then have d: "drop (nat i) xs = xs ! nat i # drop (nat (i + 1)) xs"
      using 1 by (simp add: Cons_nth_drop_Suc nat_add_distrib)
    have e: "drop (nat (i + 1)) xs = [] \<longleftrightarrow> \<not> i < sz - 1"
      using 1 True by auto
    have nth: "map Some xs ! nat i = Some (xs ! nat i)" using lt by simp
    define st2 where
      \<open>st2 = (let stream = fprintf wr st (''"'' @ xs ! nat i @ ''"'')
              in if i < sz - 1 then fprintf wr stream '','' else stream)\<close>
    have ih: "fprintf_python_list_loop wr (map Some xs) sz (i + 1) st2 =
              Inr (foldl (fprintf wr) st2 (sep (map quote (drop (nat (i + 1)) xs))))"
      unfolding st2_def using 1 True lt nth by simp
    show ?thesis
      using True 1 lt
      by (subst fprintf_python_list_loop.simps)
         (simp add: nth ih [unfolded st2_def] d sep_Cons e quote_def del: drop_eq_Nil)
  next
    case False
    with 1 show ?thesis
      by (subst fprintf_python_list_loop.simps) simp
  qed
qed

lemma hash_loop_requests:
  assumes "0 \<le> i" "sz = int (length kvs)"
    and "\<forall>kv \<in> set kvs. hash_get hash (fst kv) = Some (snd kv)"
  shows "fprintf_python_hash_loop wr hash (map fst kvs) sz i st =
         Inr (foldl (fprintf wr) st (sep (map entry (drop (nat i) kvs))))"
  using assms
proof (induction wr hash "map fst kvs" sz i st rule: fprintf_python_hash_loop.induct)
  case (1 wr hash sz i st)
  show ?case
  proof (cases "i < sz")
    case True
    with 1 have lt: "nat i < length kvs" by simp
    then have d: "drop (nat i) kvs = kvs ! nat i # drop (nat (i + 1)) kvs"
      using 1 by (simp add: Cons_nth_drop_Suc nat_add_distrib)
    have e: "drop (nat (i + 1)) kvs = [] \<longleftrightarrow> \<not> i < sz - 1"
      using 1 True by auto
    have nth: "map fst kvs ! nat i = fst (kvs ! nat i)" using lt by simp
    have get: "hash_get hash (fst (kvs ! nat i)) = Some (snd (kvs ! nat i))"
      using 1(4) lt by simp
    define st2 where
      \<open>st2 = (let stream = fprintf wr st
                     (''"'' @ map fst kvs ! nat i @ ''":"'' @ snd (kvs ! nat i) @ ''"'')
              in if i < sz - 1 then fprintf wr stream '','' else stream)\<close>
    have ih: "fprintf_python_hash_loop wr hash (map fst kvs) sz (i + 1) st2 =
              Inr (foldl (fprintf wr) st2 (sep (map entry (drop (nat (i + 1)) kvs))))"
      unfolding st2_def using 1 True lt nth get by simp
    show ?thesis
      using True 1 lt
      by (subst fprintf_python_hash_loop.simps)
         (simp add: nth get ih [unfolded st2_def nth] d sep_Cons e entry_def quote_def
               del: drop_eq_Nil)
  next
    case False
    with 1 show ?thesis
      by (subst fprintf_python_hash_loop.simps) simp
  qed
qed

subsection \<open>The printer as a sequence of write requests\<close>

lemma fprintf_python_string_requests:
  "fprintf_python_string wr st ident v = foldl (fprintf wr) st (string_requests ident v)"
  by (simp add: fprintf_python_string_def string_requests_def quote_def split: option.split)

lemma fprintf_python_list_requests:
  assumes "sz = int (length xs)"
  shows "fprintf_python_list wr st ident (map Some xs) sz =
         Inr (foldl (fprintf wr) st (list_requests ident xs))"
  using list_loop_requests [of 0 sz xs wr] assms
  by (simp add: fprintf_python_list_def list_requests_def quote_def)

lemma map_filter_Some:
  assumes "\<forall>k \<in> set ks. f k \<noteq> None"
  shows "map fst (List.map_filter (\<lambda>k. map_option (Pair k) (f k)) ks) = ks"
  using assms by (induction ks) (auto simp: List.map_filter_simps)

lemma map_filter_lookup:
  assumes "kv \<in> set (List.map_filter (\<lambda>k. map_option (Pair k) (f k)) ks)"
  shows "f (fst kv) = Some (snd kv)"
  using assms by (induction ks) (auto simp: List.map_filter_simps split: option.splits)

lemma keylist_set:
  assumes "key_order_ok ord"
  shows "set (hash_alloc_keylist ord h) = fst ` set h"
proof -
  have "mset (ord (map fst h)) = mset (map fst h)"
    using assms by (simp add: key_order_ok_def)
  then have "set (ord (map fst h)) = set (map fst h)" by (rule mset_eq_setD)
  then show ?thesis by (simp add: hash_alloc_keylist_def)
qed

lemma keylist_length:
  assumes "key_order_ok ord"
  shows "length (hash_alloc_keylist ord h) = length h"
proof -
  have "mset (ord (map fst h)) = mset (map fst h)"
    using assms by (simp add: key_order_ok_def)
  then have "length (ord (map fst h)) = length (map fst h)" by (rule mset_eq_length)
  then show ?thesis by (simp add: hash_alloc_keylist_def)
qed

lemma hash_get_keylist:
  assumes "key_order_ok ord" "k \<in> set (hash_alloc_keylist ord h)"
  shows "hash_get h k \<noteq> None"
  using assms by (simp add: keylist_set hash_get_def map_of_eq_None_iff)

lemma hash_items_keys:
  assumes "key_order_ok ord"
  shows "map fst (hash_items ord h) = hash_alloc_keylist ord h"
  unfolding hash_items_def
  by (rule map_filter_Some) (simp add: hash_get_keylist [OF assms])

lemma hash_items_lookup:
  assumes "kv \<in> set (hash_items ord h)"
  shows "hash_get h (fst kv) = Some (snd kv)"
  using assms unfolding hash_items_def by (rule map_filter_lookup)

lemma hash_items_length:
  assumes "key_order_ok ord"
  shows "length (hash_items ord h) = length h"
proof -
  have "length (hash_items ord h) = length (map fst (hash_items ord h))" by simp
  also have "\<dots> = length h" by (simp only: hash_items_keys [OF assms] keylist_length [OF assms])
  finally show ?thesis .
qed

lemma fprintf_python_hash_requests:
  assumes "key_order_ok ord"
  shows "fprintf_python_hash ord wr st ident h =
         Inr (foldl (fprintf wr) st (hash_requests ident (hash_items ord h)))"
proof -
  have "fprintf_python_hash_loop wr h (map fst (hash_items ord h)) (hash_get_size h) 0 st' =
        Inr (foldl (fprintf wr) st' (sep (map entry (drop (nat 0) (hash_items ord h)))))" for st'
    by (rule hash_loop_requests)
       (simp_all add: hash_get_size_def hash_items_length [OF assms] hash_items_lookup)
  then show ?thesis
    by (simp add: fprintf_python_hash_def hash_requests_def quote_def
          hash_items_keys [OF assms])
qed

lemma argv_args:
  assumes "list_all (\<lambda>a. a \<noteq> None) xs"
  shows "map Some (List.map_filter (\<lambda>a. a) xs) = xs"
  using assms by (induction xs) (auto simp: List.map_filter_simps)

lemma ext_job_ok_argv:
  assumes "ext_job_ok ext_job"
  shows "argv ext_job = map Some (ext_job_args ext_job)"
    and "argc ext_job = int (length (ext_job_args ext_job))"
proof -
  show a: "argv ext_job = map Some (ext_job_args ext_job)"
    using assms by (simp add: ext_job_ok_def ext_job_args_def argv_args)
  have "length (argv ext_job) = length (ext_job_args ext_job)"
    by (subst a) simp
  then show "argc ext_job = int (length (ext_job_args ext_job))"
    using assms by (simp add: ext_job_ok_def)
qed

lemma ext_job_python_fprintf_requests:
  assumes "ext_job_ok ext_job" "key_order_ok ord"
  shows "ext_job_python_fprintf ord wr ext_job st =
         Inr (foldl (fprintf wr) st (ext_job_requests ord ext_job))"
proof -
  have l: "fprintf_python_list wr st' ident (argv ext_job) (argc ext_job) =
        Inr (foldl (fprintf wr) st' (list_requests ident (ext_job_args ext_job)))" for st' ident
    using fprintf_python_list_requests [OF ext_job_ok_argv(2) [OF assms(1)], of wr st' ident]
    by (simp add: ext_job_ok_argv(1) [OF assms(1), symmetric])
  show ?thesis
    by (simp add: ext_job_python_fprintf_def ext_job_requests_def fprintf_python_string_requests l
          fprintf_python_hash_requests [OF assms(2)] indent_requests end_line_def numeral_2_eq_2)
qed

lemma concat_ext_job_requests: "concat (ext_job_requests ord ext_job) = spec_record ord ext_job"
  by (simp add: ext_job_requests_def spec_record_def string_requests_def list_requests_def
        hash_requests_def spec_string_def spec_list_def spec_hash_def concat_sep)

lemma ext_job_file_write:
  assumes "ext_job_ok ext_job" "key_order_ok ord"
  shows "ext_job_python_fprintf ord file_write ext_job st = Inr (st @ spec_record ord ext_job)"
  by (simp add: ext_job_python_fprintf_requests [OF assms] foldl_file_write concat_ext_job_requests)

subsection \<open>The table and the mutators\<close>

lemma hash_insert_keys:
  "map fst (hash_insert_hash_owned_ref h k v) =
   (if k \<in> set (map fst h) then map fst h else map fst h @ [k])"
  by (induction h) force+

lemma hash_insert_ok: "hash_ok h \<Longrightarrow> hash_ok (hash_insert_hash_owned_ref h k v)"
  by (simp add: hash_ok_def hash_insert_keys)

lemma hash_get_insert:
  "hash_get (hash_insert_hash_owned_ref h k v) k' = (if k' = k then Some v else hash_get h k')"
  by (induction h) (auto simp: hash_get_def)

lemma add_arg_fields:
  assumes "argc ext_job = int (length (argv ext_job))"
  shows "argv (ext_job_add_arg ext_job a) = argv ext_job @ [Some a]"
    and "argc (ext_job_add_arg ext_job a) = argc ext_job + 1"
  using assms
  by (simp_all add: ext_job_add_arg_def util_realloc_def util_alloc_string_copy_def
        Let_def nat_add_distrib)

lemma ok_alloc: "ext_job_ok (ext_job_alloc p)"
  by (simp add: ext_job_ok_def ext_job_alloc_def hash_ok_def hash_alloc_def)

lemma ok_setters:
  assumes "ext_job_ok ext_job"
  shows "ext_job_ok (ext_job_set_portable_exe ext_job s)"
    and "ext_job_ok (ext_job_set_init_code ext_job s)"
    and "ext_job_ok (ext_job_set_stdout_file ext_job s)"
    and "ext_job_ok (ext_job_set_target_file ext_job s)"
    and "ext_job_ok (ext_job_set_stdin_file ext_job s)"
    and "ext_job_ok (ext_job_set_stderr_file ext_job s)"
  using assms
  by (simp_all add: ext_job_ok_def ext_job_set_portable_exe_def ext_job_set_init_code_def
        ext_job_set_stdout_file_def ext_job_set_target_file_def ext_job_set_stdin_file_def
        ext_job_set_stderr_file_def)

lemma ok_add_hash:
  assumes "ext_job_ok ext_job"
  shows "ext_job_ok (ext_job_add_platform_exe ext_job k v)"
    and "ext_job_ok (ext_job_add_environment ext_job k v)"
  using assms
  by (simp_all add: ext_job_ok_def ext_job_add_platform_exe_def ext_job_add_environment_def
        hash_insert_ok)

lemma ok_add_arg:
  assumes "ext_job_ok ext_job"
  shows "ext_job_ok (ext_job_add_arg ext_job a)"
proof -
  have c: "argc ext_job = int (length (argv ext_job))"
    using assms by (simp add: ext_job_ok_def)
  have "platform_exe (ext_job_add_arg ext_job a) = platform_exe ext_job"
       "environment (ext_job_add_arg ext_job a) = environment ext_job"
    by (simp_all add: ext_job_add_arg_def Let_def)
  then show ?thesis
    using assms by (simp add: ext_job_ok_def add_arg_fields [OF c])
qed

lemma args_add_arg:
  assumes "ext_job_ok ext_job"
  shows "ext_job_args (ext_job_add_arg ext_job a) = ext_job_args ext_job @ [a]"
proof -
  have c: "argc ext_job = int (length (argv ext_job))"
    using assms by (simp add: ext_job_ok_def)
  show ?thesis
    by (simp add: ext_job_args_def add_arg_fields [OF c] List.map_filter_def)
qed

lemma foldl_add_arg:
  assumes "ext_job_ok ext_job"
  shows "ext_job_ok (foldl ext_job_add_arg ext_job as) \<and>
         ext_job_args (foldl ext_job_add_arg ext_job as) = ext_job_args ext_job @ as"
  using assms
proof (induction as arbitrary: ext_job)
  case Nil
  then show ?case by simp
next
  case (Cons a as)
  from Cons.IH [OF ok_add_arg [OF Cons.prems], of a]
  show ?case by (simp add: args_add_arg [OF Cons.prems])
qed

lemma key_order_single:
  assumes "key_order_ok ord"
  shows "ord [k] = [k]"
proof -
  have "mset (ord [k]) = {#k#}" using assms by (simp add: key_order_ok_def)
  then show ?thesis by (simp add: mset_single_iff)
qed

lemma hash_items_member:
  assumes "k \<in> set (hash_alloc_keylist ord h)" "hash_get h k = Some v"
  shows "(k, v) \<in> set (hash_items ord h)"
  using assms by (auto simp: hash_items_def List.map_filter_def image_iff)

lemma filter_distinct_key:
  assumes "distinct (map fst kvs)" "(k, v) \<in> set kvs"
  shows "filter (\<lambda>kv. fst kv = k) kvs = [(k, v)]"
  using assms
proof (induction kvs)
  case Nil
  then show ?case by simp
next
  case (Cons x kvs)
  then show ?case
    by (cases "x = (k, v)") (auto simp: filter_empty_conv image_iff)
qed

lemma list_loop_done: "\<not> i < sz \<Longrightarrow> fprintf_python_list_loop wr list sz i st = Inr st"
  by (subst fprintf_python_list_loop.simps) simp

lemma hash_loop_done: "\<not> i < sz \<Longrightarrow> fprintf_python_hash_loop wr h ks sz i st = Inr st"
  by (subst fprintf_python_hash_loop.simps) simp

lemma hash_items_distinct:
  assumes "key_order_ok ord" "hash_ok h"
  shows "distinct (map fst (hash_items ord h))"
proof -
  have "mset (ord (map fst h)) = mset (map fst h)"
    using assms(1) by (simp add: key_order_ok_def)
  then have "distinct (ord (map fst h)) \<longleftrightarrow> distinct (map fst h)"
    by (rule mset_eq_imp_distinct_iff)
  then show ?thesis
    using assms(2) by (simp add: hash_items_keys [OF assms(1)] hash_alloc_keylist_def hash_ok_def)
qed

lemmas mutator_defs =
  ext_job_alloc_def ext_job_set_portable_exe_def ext_job_set_init_code_def
  ext_job_set_stdout_file_def ext_job_set_target_file_def ext_job_set_stdin_file_def
  ext_job_set_stderr_file_def ext_job_add_platform_exe_def ext_job_add_environment_def
  ext_job_add_arg_def util_realloc_def util_alloc_string_copy_def util_realloc_string_copy_def
  hash_alloc_def

lemmas setter_defs =
  ext_job_set_portable_exe_def ext_job_set_init_code_def ext_job_set_stdout_file_def
  ext_job_set_target_file_def ext_job_set_stdin_file_def ext_job_set_stderr_file_def
  util_realloc_string_copy_def

section \<open>The claims of the specification\<close>

text \<open>
  C1. End-to-end example: after \<^verbatim>\<open>Create(10)\<close>, \<^verbatim>\<open>SetPortableExe("/bin/eclipse")\<close>,
  \<^verbatim>\<open>AddArgument("--version")\<close>, \<^verbatim>\<open>AddEnvironmentVar("F_UFMTENDIAN","big")\<close>,
  \<^verbatim>\<open>AddPlatformExe("x86_64","/local/eclipse.exe")\<close> and
  \<^verbatim>\<open>SetStdoutFile("eclipse.stdout")\<close>, the printer writes exactly the record of the
  specification to a stream that was empty, whatever order the table enumerates its
  keys in (each mapping has one key).
\<close>

theorem serialize_example:
  assumes "key_order_ok ord"
  shows \<open>ext_job_python_fprintf ord file_write
          (ext_job_set_stdout_file
            (ext_job_add_platform_exe
              (ext_job_add_environment
                (ext_job_add_arg
                  (ext_job_set_portable_exe (ext_job_alloc 10) ''/bin/eclipse'')
                  ''--version'')
                ''F_UFMTENDIAN'' ''big'')
              ''x86_64'' ''/local/eclipse.exe'')
            ''eclipse.stdout'')
          [] =
        Inr ('' {"portable_exe" : "/bin/eclipse",\<newline>'' @
             ''  "init_code" : None,\<newline>'' @
             ''  "target_file" : None,\<newline>'' @
             ''  "stdout" : "eclipse.stdout",\<newline>'' @
             ''  "stderr" : None,\<newline>'' @
             ''  "stdin" : None,\<newline>'' @
             ''  "argList" : ["--version"],\<newline>'' @
             ''  "environment" : {"F_UFMTENDIAN":"big"},\<newline>'' @
             ''  "platform_exe" : {"x86_64":"/local/eclipse.exe"}}\<newline>'')\<close>
proof -
  let ?job = \<open>ext_job_set_stdout_file
            (ext_job_add_platform_exe
              (ext_job_add_environment
                (ext_job_add_arg
                  (ext_job_set_portable_exe (ext_job_alloc 10) ''/bin/eclipse'')
                  ''--version'')
                ''F_UFMTENDIAN'' ''big'')
              ''x86_64'' ''/local/eclipse.exe'')
            ''eclipse.stdout''\<close>
  have ok: "ext_job_ok ?job"
    by (intro ok_setters ok_add_hash ok_add_arg ok_alloc)
  have "ext_job_python_fprintf ord file_write ?job [] = Inr ([] @ spec_record ord ?job)"
    using ok assms by (rule ext_job_file_write)
  moreover have \<open>spec_record ord ?job = 
             '' {"portable_exe" : "/bin/eclipse",\<newline>'' @
             ''  "init_code" : None,\<newline>'' @
             ''  "target_file" : None,\<newline>'' @
             ''  "stdout" : "eclipse.stdout",\<newline>'' @
             ''  "stderr" : None,\<newline>'' @
             ''  "stdin" : None,\<newline>'' @
             ''  "argList" : ["--version"],\<newline>'' @
             ''  "environment" : {"F_UFMTENDIAN":"big"},\<newline>'' @
             ''  "platform_exe" : {"x86_64":"/local/eclipse.exe"}}\<newline>''\<close>
    by (simp add: spec_record_def spec_string_def spec_list_def spec_hash_def quote_def
          entry_def ext_job_args_def hash_items_def hash_alloc_keylist_def hash_get_def
          List.map_filter_def mutator_defs key_order_single [OF assms])
  ultimately show ?thesis by simp
qed

theorem serialize_example_witness:
  \<open>key_order_ok id \<and>
   ext_job_python_fprintf id file_write
          (ext_job_set_stdout_file
            (ext_job_add_platform_exe
              (ext_job_add_environment
                (ext_job_add_arg
                  (ext_job_set_portable_exe (ext_job_alloc 10) ''/bin/eclipse'')
                  ''--version'')
                ''F_UFMTENDIAN'' ''big'')
              ''x86_64'' ''/local/eclipse.exe'')
            ''eclipse.stdout'')
          [] =
        Inr ('' {"portable_exe" : "/bin/eclipse",\<newline>'' @
             ''  "init_code" : None,\<newline>'' @
             ''  "target_file" : None,\<newline>'' @
             ''  "stdout" : "eclipse.stdout",\<newline>'' @
             ''  "stderr" : None,\<newline>'' @
             ''  "stdin" : None,\<newline>'' @
             ''  "argList" : ["--version"],\<newline>'' @
             ''  "environment" : {"F_UFMTENDIAN":"big"},\<newline>'' @
             ''  "platform_exe" : {"x86_64":"/local/eclipse.exe"}}\<newline>'')\<close>
proof -
  have h: "key_order_ok id" by (simp add: key_order_ok_def)
  show ?thesis using h serialize_example [OF h] by simp
qed

text \<open>
  C2. The record is the nine fields in the fixed order \<^verbatim>\<open>portable_exe\<close>,
  \<^verbatim>\<open>init_code\<close>, \<^verbatim>\<open>target_file\<close>, \<^verbatim>\<open>stdout\<close>, \<^verbatim>\<open>stderr\<close>,
  \<^verbatim>\<open>stdin\<close>, \<^verbatim>\<open>argList\<close>, \<^verbatim>\<open>environment\<close>, \<^verbatim>\<open>platform_exe\<close>. Each
  of the first seven is followed by a comma and a newline (and so is the eighth); the
  last one has no trailing comma and is followed by a closing brace and a newline.
\<close>

theorem serialize_separators:
  assumes "ext_job_ok ext_job" "key_order_ok ord"
  shows \<open>ext_job_python_fprintf ord file_write ext_job st =
         Inr (st @
           '' {'' @ spec_string ''portable_exe'' (portable_exe ext_job) @ '',\<newline>'' @
           ''  '' @ spec_string ''init_code'' (init_code ext_job) @ '',\<newline>'' @
           ''  '' @ spec_string ''target_file'' (target_file ext_job) @ '',\<newline>'' @
           ''  '' @ spec_string ''stdout'' (stdout_file ext_job) @ '',\<newline>'' @
           ''  '' @ spec_string ''stderr'' (stderr_file ext_job) @ '',\<newline>'' @
           ''  '' @ spec_string ''stdin'' (stdin_file ext_job) @ '',\<newline>'' @
           ''  '' @ spec_list ''argList'' (ext_job_args ext_job) @ '',\<newline>'' @
           ''  '' @ spec_hash ''environment'' (hash_items ord (environment ext_job)) @
             '',\<newline>'' @
           ''  '' @ spec_hash ''platform_exe'' (hash_items ord (platform_exe ext_job)) @
             ''}\<newline>'')\<close>
  using ext_job_file_write [OF assms, of st] by (simp add: spec_record_def)

theorem serialize_separators_witness:
  \<open>ext_job_ok (ext_job_add_arg (ext_job_alloc 7) ''-v'') \<and> key_order_ok rev \<and>
   ext_job_python_fprintf rev file_write (ext_job_add_arg (ext_job_alloc 7) ''-v'') ''#'' =
     Inr (''# {"portable_exe" : None,\<newline>'' @
          ''  "init_code" : None,\<newline>'' @
          ''  "target_file" : None,\<newline>'' @
          ''  "stdout" : None,\<newline>'' @
          ''  "stderr" : None,\<newline>'' @
          ''  "stdin" : None,\<newline>'' @
          ''  "argList" : ["-v"],\<newline>'' @
          ''  "environment" : {},\<newline>'' @
          ''  "platform_exe" : {}}\<newline>'')\<close>
proof -
  have h1: "ext_job_ok (ext_job_add_arg (ext_job_alloc 7) ''-v'')"
    by (intro ok_add_arg ok_alloc)
  have h2: "key_order_ok rev" by (simp add: key_order_ok_def)
  show ?thesis
    using h1 h2 serialize_separators [OF h1 h2, of \<open>''#''\<close>]
    by (simp add: spec_string_def spec_list_def spec_hash_def quote_def
          entry_def ext_job_args_def hash_items_def hash_alloc_keylist_def hash_get_def
          List.map_filter_def mutator_defs)
qed

text \<open>
  C3. For every priority \<open>p\<close>, the descriptor that \<^verbatim>\<open>ext_job_alloc p\<close> returns
  prints every optional string as \<^verbatim>\<open>None\<close>, the argument list as \<^verbatim>\<open>[]\<close> and
  both mappings as \<^verbatim>\<open>{}\<close>. This needs nothing of the key enumeration: the loops over
  the empty tables do not run.
\<close>

theorem serialize_fresh:
  \<open>ext_job_python_fprintf ord file_write (ext_job_alloc p) st =
     Inr (st @ '' {"portable_exe" : None,\<newline>'' @
               ''  "init_code" : None,\<newline>'' @
               ''  "target_file" : None,\<newline>'' @
               ''  "stdout" : None,\<newline>'' @
               ''  "stderr" : None,\<newline>'' @
               ''  "stdin" : None,\<newline>'' @
               ''  "argList" : [],\<newline>'' @
               ''  "environment" : {},\<newline>'' @
               ''  "platform_exe" : {}}\<newline>'')\<close>
  by (simp add: ext_job_python_fprintf_def ext_job_alloc_def hash_alloc_def
        fprintf_python_string_def fprintf_python_list_def fprintf_python_hash_def
        hash_get_size_def list_loop_done hash_loop_done end_line_def indent_requests
        numeral_2_eq_2 fprintf_def file_write_def)

theorem serialize_fresh_witness:
  \<open>ext_job_python_fprintf tl file_write (ext_job_alloc 10) [] =
     Inr ('' {"portable_exe" : None,\<newline>'' @
          ''  "init_code" : None,\<newline>'' @
          ''  "target_file" : None,\<newline>'' @
          ''  "stdout" : None,\<newline>'' @
          ''  "stderr" : None,\<newline>'' @
          ''  "stdin" : None,\<newline>'' @
          ''  "argList" : [],\<newline>'' @
          ''  "environment" : {},\<newline>'' @
          ''  "platform_exe" : {}}\<newline>'')\<close>
  using serialize_fresh [of tl 10 \<open>[]\<close>] by simp

text \<open>
  C4. After any sequence \<open>as\<close> of \<^verbatim>\<open>ext_job_add_arg\<close> calls on a well-formed
  descriptor, its arguments are the earlier ones followed by \<open>as\<close> in call order,
  duplicates and empty strings included; the printer writes them double-quoted and
  comma-separated between brackets (\<open>commas [] = []\<close>, so no argument gives
  \<^verbatim>\<open>[]\<close>), and that list is the \<^verbatim>\<open>argList\<close> field of the record.
\<close>

theorem add_arg_sequence:
  assumes "ext_job_ok ext_job" "key_order_ok ord"
  shows \<open>ext_job_args (foldl ext_job_add_arg ext_job as) = ext_job_args ext_job @ as \<and>
         fprintf_python_list file_write st ''argList''
             (argv (foldl ext_job_add_arg ext_job as))
             (argc (foldl ext_job_add_arg ext_job as)) =
           Inr (st @ ''"argList" : ['' @ commas (map quote (ext_job_args ext_job @ as)) @ '']'') \<and>
         ext_job_python_fprintf ord file_write (foldl ext_job_add_arg ext_job as) st =
           Inr (st @ spec_record ord (foldl ext_job_add_arg ext_job as))\<close>
proof -
  let ?job = "foldl ext_job_add_arg ext_job as"
  have ok: "ext_job_ok ?job" and args: "ext_job_args ?job = ext_job_args ext_job @ as"
    using foldl_add_arg [OF assms(1), of as] by simp_all
  have "fprintf_python_list file_write st ''argList'' (map Some (ext_job_args ?job)) (argc ?job) =
        Inr (foldl (fprintf file_write) st (list_requests ''argList'' (ext_job_args ?job)))"
    using ext_job_ok_argv(2) [OF ok] by (rule fprintf_python_list_requests)
  also have "map Some (ext_job_args ?job) = argv ?job"
    by (rule ext_job_ok_argv(1) [OF ok, symmetric])
  also have \<open>foldl (fprintf file_write) st (list_requests ''argList'' (ext_job_args ?job)) =
        st @ ''"argList" : ['' @ commas (map quote (ext_job_args ext_job @ as)) @ '']''\<close>
    by (simp add: foldl_file_write list_requests_def concat_sep args quote_def
          fprintf_def file_write_def)
  finally have \<open>fprintf_python_list file_write st ''argList'' (argv ?job) (argc ?job) =
        Inr (st @ ''"argList" : ['' @ commas (map quote (ext_job_args ext_job @ as)) @ '']'')\<close> .
  with args ext_job_file_write [OF ok assms(2), of st] show ?thesis by simp
qed

theorem add_arg_sequence_witness:
  \<open>ext_job_ok (ext_job_add_arg (ext_job_alloc 1) ''x'') \<and> key_order_ok id \<and>
   ext_job_args (foldl ext_job_add_arg (ext_job_add_arg (ext_job_alloc 1) ''x'')
                   [''a'', '''', ''a'']) = [''x'', ''a'', '''', ''a''] \<and>
   fprintf_python_list file_write [] ''argList''
      (argv (foldl ext_job_add_arg (ext_job_add_arg (ext_job_alloc 1) ''x'') [''a'', '''', ''a'']))
      (argc (foldl ext_job_add_arg (ext_job_add_arg (ext_job_alloc 1) ''x'') [''a'', '''', ''a''])) =
     Inr ''"argList" : ["x","a","","a"]''\<close>
proof -
  have h1: "ext_job_ok (ext_job_add_arg (ext_job_alloc 1) ''x'')"
    by (intro ok_add_arg ok_alloc)
  have h2: "key_order_ok id" by (simp add: key_order_ok_def)
  have a: "ext_job_args (ext_job_add_arg (ext_job_alloc 1) ''x'') = [''x'']"
    by (simp add: ext_job_args_def List.map_filter_def mutator_defs)
  show ?thesis
    using h1 h2 add_arg_sequence [OF h1 h2, of \<open>[''a'', '''', ''a'']\<close> \<open>[]\<close>]
    by (simp add: a quote_def)
qed

text \<open>
  C5. For every well-formed descriptor, key \<open>k\<close> and values \<open>v1\<close>, \<open>v2\<close>: after
  \<^verbatim>\<open>ext_job_add_environment\<close> with \<open>(k, v1)\<close> and then with \<open>(k, v2)\<close>, the
  entries that the printer writes for the environment mapping contain exactly one entry
  for \<open>k\<close>, with value \<open>v2\<close>, and no key twice.
\<close>

theorem add_environment_twice:
  assumes "ext_job_ok ext_job" "key_order_ok ord"
  shows \<open>filter (\<lambda>kv. fst kv = k)
           (hash_items ord (environment
              (ext_job_add_environment (ext_job_add_environment ext_job k v1) k v2))) =
           [(k, v2)] \<and>
         distinct (map fst
           (hash_items ord (environment
              (ext_job_add_environment (ext_job_add_environment ext_job k v1) k v2)))) \<and>
         fprintf_python_hash ord file_write st ''environment''
           (environment (ext_job_add_environment (ext_job_add_environment ext_job k v1) k v2)) =
           Inr (st @ ''"environment" : {'' @
                commas (map entry (hash_items ord (environment
                  (ext_job_add_environment (ext_job_add_environment ext_job k v1) k v2)))) @
                ''}'') \<and>
         ext_job_python_fprintf ord file_write
           (ext_job_add_environment (ext_job_add_environment ext_job k v1) k v2) st =
           Inr (st @ spec_record ord
                  (ext_job_add_environment (ext_job_add_environment ext_job k v1) k v2))\<close>
proof -
  let ?job = "ext_job_add_environment (ext_job_add_environment ext_job k v1) k v2"
  let ?h = "environment ?job"
  have ok: "ext_job_ok ?job"
    by (intro ok_add_hash assms(1))
  then have hok: "hash_ok ?h" by (simp add: ext_job_ok_def)
  have d: "distinct (map fst (hash_items ord ?h))"
    using assms(2) hok by (rule hash_items_distinct)
  have get: "hash_get ?h k = Some v2"
    by (simp add: ext_job_add_environment_def hash_get_insert)
  have "k \<in> fst ` set ?h"
    using get by (auto simp: hash_get_def dest: map_of_SomeD intro: image_eqI [where x = "(k, v2)"])
  then have "k \<in> set (hash_alloc_keylist ord ?h)"
    by (simp add: keylist_set [OF assms(2)])
  then have "(k, v2) \<in> set (hash_items ord ?h)"
    using get by (rule hash_items_member)
  with d have f: "filter (\<lambda>kv. fst kv = k) (hash_items ord ?h) = [(k, v2)]"
    by (rule filter_distinct_key)
  have \<open>fprintf_python_hash ord file_write st ''environment'' ?h =
        Inr (st @ ''"environment" : {'' @ commas (map entry (hash_items ord ?h)) @ ''}'')\<close>
    by (simp add: fprintf_python_hash_requests [OF assms(2)] foldl_file_write
          hash_requests_def concat_sep quote_def fprintf_def file_write_def)
  with f d ext_job_file_write [OF ok assms(2), of st] show ?thesis by simp
qed

theorem add_environment_twice_witness:
  \<open>ext_job_ok (ext_job_add_environment (ext_job_alloc 2) ''A'' ''0'') \<and> key_order_ok rev \<and>
   filter (\<lambda>kv. fst kv = ''K'')
     (hash_items rev (environment
        (ext_job_add_environment
          (ext_job_add_environment (ext_job_add_environment (ext_job_alloc 2) ''A'' ''0'')
             ''K'' ''1'') ''K'' ''2''))) = [(''K'', ''2'')] \<and>
   fprintf_python_hash rev file_write [] ''environment''
     (environment
        (ext_job_add_environment
          (ext_job_add_environment (ext_job_add_environment (ext_job_alloc 2) ''A'' ''0'')
             ''K'' ''1'') ''K'' ''2'')) =
     Inr ''"environment" : {"K":"2","A":"0"}''\<close>
proof -
  have h1: "ext_job_ok (ext_job_add_environment (ext_job_alloc 2) ''A'' ''0'')"
    by (intro ok_add_hash ok_alloc)
  have h2: "key_order_ok rev" by (simp add: key_order_ok_def)
  have i: \<open>hash_items rev (environment
        (ext_job_add_environment
          (ext_job_add_environment (ext_job_add_environment (ext_job_alloc 2) ''A'' ''0'')
             ''K'' ''1'') ''K'' ''2'')) = [(''K'', ''2''), (''A'', ''0'')]\<close>
    by (simp add: hash_items_def hash_alloc_keylist_def hash_get_def List.map_filter_def
          mutator_defs)
  show ?thesis
    using h1 h2 add_environment_twice [OF h1 h2, of \<open>''K''\<close> \<open>''1''\<close> \<open>''2''\<close> \<open>[]\<close>]
    by (simp add: i entry_def quote_def)
qed

text \<open>
  C6. For each of the six setters of an optional string and all values \<open>a\<close>,
  \<open>b\<close>: after the setter is called with \<open>a\<close> and then with \<open>b\<close>, the printer
  writes the field as \<open>b\<close> in double quotes, and the whole record is the one of the
  descriptor whose field holds \<open>b\<close>: nothing of \<open>a\<close> remains.
\<close>

theorem setter_last_write_wins:
  assumes "ext_job_ok ext_job" "key_order_ok ord"
  shows
   \<open>fprintf_python_string file_write st ''portable_exe''
        (portable_exe (ext_job_set_portable_exe (ext_job_set_portable_exe ext_job a) b)) =
      st @ ''"portable_exe" : "'' @ b @ ''"'' \<and>
    ext_job_python_fprintf ord file_write (ext_job_set_portable_exe (ext_job_set_portable_exe ext_job a) b) st =
      Inr (st @ spec_record ord (ext_job\<lparr>portable_exe := Some b\<rparr>)) \<and>
    fprintf_python_string file_write st ''init_code''
        (init_code (ext_job_set_init_code (ext_job_set_init_code ext_job a) b)) =
      st @ ''"init_code" : "'' @ b @ ''"'' \<and>
    ext_job_python_fprintf ord file_write (ext_job_set_init_code (ext_job_set_init_code ext_job a) b) st =
      Inr (st @ spec_record ord (ext_job\<lparr>init_code := Some b\<rparr>)) \<and>
    fprintf_python_string file_write st ''stdout''
        (stdout_file (ext_job_set_stdout_file (ext_job_set_stdout_file ext_job a) b)) =
      st @ ''"stdout" : "'' @ b @ ''"'' \<and>
    ext_job_python_fprintf ord file_write (ext_job_set_stdout_file (ext_job_set_stdout_file ext_job a) b) st =
      Inr (st @ spec_record ord (ext_job\<lparr>stdout_file := Some b\<rparr>)) \<and>
    fprintf_python_string file_write st ''stderr''
        (stderr_file (ext_job_set_stderr_file (ext_job_set_stderr_file ext_job a) b)) =
      st @ ''"stderr" : "'' @ b @ ''"'' \<and>
    ext_job_python_fprintf ord file_write (ext_job_set_stderr_file (ext_job_set_stderr_file ext_job a) b) st =
      Inr (st @ spec_record ord (ext_job\<lparr>stderr_file := Some b\<rparr>)) \<and>
    fprintf_python_string file_write st ''stdin''
        (stdin_file (ext_job_set_stdin_file (ext_job_set_stdin_file ext_job a) b)) =
      st @ ''"stdin" : "'' @ b @ ''"'' \<and>
    ext_job_python_fprintf ord file_write (ext_job_set_stdin_file (ext_job_set_stdin_file ext_job a) b) st =
      Inr (st @ spec_record ord (ext_job\<lparr>stdin_file := Some b\<rparr>)) \<and>
    fprintf_python_string file_write st ''target_file''
        (target_file (ext_job_set_target_file (ext_job_set_target_file ext_job a) b)) =
      st @ ''"target_file" : "'' @ b @ ''"'' \<and>
    ext_job_python_fprintf ord file_write (ext_job_set_target_file (ext_job_set_target_file ext_job a) b) st =
      Inr (st @ spec_record ord (ext_job\<lparr>target_file := Some b\<rparr>))\<close>
proof -
  have e:
    "ext_job_set_portable_exe (ext_job_set_portable_exe ext_job a) b = ext_job\<lparr>portable_exe := Some b\<rparr>"
    "ext_job_set_init_code (ext_job_set_init_code ext_job a) b = ext_job\<lparr>init_code := Some b\<rparr>"
    "ext_job_set_stdout_file (ext_job_set_stdout_file ext_job a) b = ext_job\<lparr>stdout_file := Some b\<rparr>"
    "ext_job_set_stderr_file (ext_job_set_stderr_file ext_job a) b = ext_job\<lparr>stderr_file := Some b\<rparr>"
    "ext_job_set_stdin_file (ext_job_set_stdin_file ext_job a) b = ext_job\<lparr>stdin_file := Some b\<rparr>"
    "ext_job_set_target_file (ext_job_set_target_file ext_job a) b = ext_job\<lparr>target_file := Some b\<rparr>"
    by (simp_all add: setter_defs)
  have ok:
    "ext_job_ok (ext_job\<lparr>portable_exe := Some b\<rparr>)"
    "ext_job_ok (ext_job\<lparr>init_code := Some b\<rparr>)"
    "ext_job_ok (ext_job\<lparr>stdout_file := Some b\<rparr>)"
    "ext_job_ok (ext_job\<lparr>stderr_file := Some b\<rparr>)"
    "ext_job_ok (ext_job\<lparr>stdin_file := Some b\<rparr>)"
    "ext_job_ok (ext_job\<lparr>target_file := Some b\<rparr>)"
    using assms(1) by (simp_all add: ext_job_ok_def)
  show ?thesis
    unfolding e
    by (simp add: ext_job_file_write [OF ok(1) assms(2)]
          ext_job_file_write [OF ok(2) assms(2)] ext_job_file_write [OF ok(3) assms(2)]
          ext_job_file_write [OF ok(4) assms(2)] ext_job_file_write [OF ok(5) assms(2)]
          ext_job_file_write [OF ok(6) assms(2)]
          fprintf_python_string_def fprintf_def file_write_def)
qed

theorem setter_last_write_wins_witness:
  \<open>ext_job_ok (ext_job_alloc 3) \<and> key_order_ok id \<and>
   fprintf_python_string file_write [] ''stdout''
     (stdout_file (ext_job_set_stdout_file (ext_job_set_stdout_file (ext_job_alloc 3) ''a.out'')
        ''b.out'')) = ''"stdout" : "b.out"'' \<and>
   ext_job_python_fprintf id file_write
     (ext_job_set_stdout_file (ext_job_set_stdout_file (ext_job_alloc 3) ''a.out'') ''b.out'') [] =
     Inr ('' {"portable_exe" : None,\<newline>'' @
          ''  "init_code" : None,\<newline>'' @
          ''  "target_file" : None,\<newline>'' @
          ''  "stdout" : "b.out",\<newline>'' @
          ''  "stderr" : None,\<newline>'' @
          ''  "stdin" : None,\<newline>'' @
          ''  "argList" : [],\<newline>'' @
          ''  "environment" : {},\<newline>'' @
          ''  "platform_exe" : {}}\<newline>'')\<close>
proof -
  have h1: "ext_job_ok (ext_job_alloc 3)" by (rule ok_alloc)
  have h2: "key_order_ok id" by (simp add: key_order_ok_def)
  show ?thesis
    using h1 h2 setter_last_write_wins [OF h1 h2, of \<open>[]\<close> \<open>''a.out''\<close> \<open>''b.out''\<close>]
    by (simp add: spec_record_def spec_string_def spec_list_def spec_hash_def quote_def
          entry_def ext_job_args_def hash_items_def hash_alloc_keylist_def hash_get_def
          List.map_filter_def mutator_defs)
qed

text \<open>
  C7. The printer reads the descriptor (a \<^verbatim>\<open>const\<close> pointer in the source, an
  argument that is not returned here) and changes only the stream. On a well-formed
  descriptor, with the same key enumeration, a second call right after the first
  appends the same bytes again.
\<close>

theorem serialize_twice:
  assumes "ext_job_ok ext_job" "key_order_ok ord"
  shows "ext_job_python_fprintf ord file_write ext_job st =
           Inr (st @ spec_record ord ext_job) \<and>
         ext_job_python_fprintf ord file_write ext_job (st @ spec_record ord ext_job) =
           Inr ((st @ spec_record ord ext_job) @ spec_record ord ext_job)"
  by (simp only: ext_job_file_write [OF assms] simp_thms)

theorem serialize_twice_witness:
  \<open>ext_job_ok (ext_job_add_platform_exe (ext_job_alloc 4) ''ia64'' ''/e'') \<and>
   key_order_ok id \<and>
   ext_job_python_fprintf id file_write
     (ext_job_add_platform_exe (ext_job_alloc 4) ''ia64'' ''/e'')
     (spec_record id (ext_job_add_platform_exe (ext_job_alloc 4) ''ia64'' ''/e'')) =
   Inr (spec_record id (ext_job_add_platform_exe (ext_job_alloc 4) ''ia64'' ''/e'') @
        spec_record id (ext_job_add_platform_exe (ext_job_alloc 4) ''ia64'' ''/e''))\<close>
proof -
  have h1: "ext_job_ok (ext_job_add_platform_exe (ext_job_alloc 4) ''ia64'' ''/e'')"
    by (intro ok_add_hash ok_alloc)
  have h2: "key_order_ok id" by (simp add: key_order_ok_def)
  show ?thesis
    using h1 h2 serialize_twice [OF h1 h2, of \<open>[]\<close>] by simp
qed

text \<open>
  C8, as stated, fails: on a stream whose every write fails (each \<^verbatim>\<open>fprintf\<close>
  returns \<open>- 1\<close>), the printer returns normally, as on a working stream. It has no
  result to report a failure with (\<^verbatim>\<open>void\<close>) and looks at no return value.
\<close>

theorem serialize_broken_stream_counterexample:
  \<open>fst (broken_write [] '' {'') < 0 \<and>
   ext_job_python_fprintf id broken_write (ext_job_alloc 10) [] = Inr []\<close>
  by (simp add: ext_job_python_fprintf_def ext_job_alloc_def hash_alloc_def
        fprintf_python_string_def fprintf_python_list_def fprintf_python_hash_def
        hash_get_size_def list_loop_done hash_loop_done end_line_def indent_requests
        numeral_2_eq_2 fprintf_def broken_write_def)

text \<open>
  C8, amended. For every stream, failing or not, the printer of a well-formed
  descriptor returns normally after issuing the same write requests in the same
  order: a write failure neither stops it nor reaches its caller. The mutators cannot
  fail: each returns a well-formed descriptor (allocation failure, which aborts the
  process, is outside the model).
\<close>

theorem serialize_ignores_write_results:
  assumes "ext_job_ok ext_job" "key_order_ok ord"
  shows "ext_job_python_fprintf ord wr ext_job st =
           Inr (foldl (fprintf wr) st (ext_job_requests ord ext_job)) \<and>
         ext_job_ok (ext_job_set_portable_exe ext_job s) \<and>
         ext_job_ok (ext_job_set_init_code ext_job s) \<and>
         ext_job_ok (ext_job_set_stdout_file ext_job s) \<and>
         ext_job_ok (ext_job_set_target_file ext_job s) \<and>
         ext_job_ok (ext_job_set_stdin_file ext_job s) \<and>
         ext_job_ok (ext_job_set_stderr_file ext_job s) \<and>
         ext_job_ok (ext_job_add_platform_exe ext_job k v) \<and>
         ext_job_ok (ext_job_add_environment ext_job k v) \<and>
         ext_job_ok (ext_job_add_arg ext_job s)"
  by (simp only: ext_job_python_fprintf_requests [OF assms] ok_setters [OF assms(1)]
        ok_add_hash [OF assms(1)] ok_add_arg [OF assms(1)] simp_thms)

theorem serialize_ignores_write_results_witness:
  \<open>ext_job_ok (ext_job_alloc 10) \<and> key_order_ok id \<and>
   ext_job_python_fprintf id broken_write (ext_job_alloc 10) ''x'' = Inr ''x'' \<and>
   ext_job_ok (ext_job_add_arg (ext_job_alloc 10) ''-v'')\<close>
proof -
  have h1: "ext_job_ok (ext_job_alloc 10)" by (rule ok_alloc)
  have h2: "key_order_ok id" by (simp add: key_order_ok_def)
  have f: "foldl (fprintf broken_write) st cs = st" for st cs
    by (induction cs) (simp_all add: fprintf_def broken_write_def)
  show ?thesis
    using h1 h2
      serialize_ignores_write_results [OF h1 h2, of broken_write \<open>''x''\<close> \<open>''-v''\<close>]
    by (simp add: f)
qed

text \<open>
  C9. The priority is stored and never printed: two descriptors that differ only
  in \<open>priority\<close> are printed alike, on every stream.
\<close>

theorem serialize_priority_independent:
  "ext_job_python_fprintf ord wr (ext_job\<lparr>priority := p\<rparr>) st =
   ext_job_python_fprintf ord wr (ext_job\<lparr>priority := q\<rparr>) st"
  by (simp add: ext_job_python_fprintf_def cong: sum.case_cong)

theorem serialize_priority_independent_witness:
  "ext_job_python_fprintf id file_write ((ext_job_alloc 1)\<lparr>priority := 5\<rparr>) [] =
   ext_job_python_fprintf id file_write ((ext_job_alloc 1)\<lparr>priority := 9\<rparr>) [] \<and>
   (ext_job_alloc 1)\<lparr>priority := 5\<rparr> = ext_job_alloc 5 \<and>
   (ext_job_alloc 1)\<lparr>priority := 9\<rparr> = ext_job_alloc 9"
  using serialize_priority_independent
          [where ord = id and wr = file_write and ext_job = "ext_job_alloc 1" and p = 5
             and q = 9 and st = "[]"]
  by (simp add: ext_job_alloc_def)

text \<open>
  C10. Every mutator returns its argument with only its own field replaced: a setter
  its optional string, \<^verbatim>\<open>ext_job_add_platform_exe\<close> the \<open>platform_exe\<close> table,
  \<^verbatim>\<open>ext_job_add_environment\<close> the \<open>environment\<close> table, \<^verbatim>\<open>ext_job_add_arg\<close>
  the argument array with its count. In particular none changes the priority.
\<close>

theorem mutator_frame:
  "ext_job_set_portable_exe ext_job s =
     ext_job\<lparr>portable_exe := portable_exe (ext_job_set_portable_exe ext_job s)\<rparr> \<and>
   ext_job_set_init_code ext_job s =
     ext_job\<lparr>init_code := init_code (ext_job_set_init_code ext_job s)\<rparr> \<and>
   ext_job_set_stdout_file ext_job s =
     ext_job\<lparr>stdout_file := stdout_file (ext_job_set_stdout_file ext_job s)\<rparr> \<and>
   ext_job_set_target_file ext_job s =
     ext_job\<lparr>target_file := target_file (ext_job_set_target_file ext_job s)\<rparr> \<and>
   ext_job_set_stdin_file ext_job s =
     ext_job\<lparr>stdin_file := stdin_file (ext_job_set_stdin_file ext_job s)\<rparr> \<and>
   ext_job_set_stderr_file ext_job s =
     ext_job\<lparr>stderr_file := stderr_file (ext_job_set_stderr_file ext_job s)\<rparr> \<and>
   ext_job_add_platform_exe ext_job k v =
     ext_job\<lparr>platform_exe := platform_exe (ext_job_add_platform_exe ext_job k v)\<rparr> \<and>
   ext_job_add_environment ext_job k v =
     ext_job\<lparr>environment := environment (ext_job_add_environment ext_job k v)\<rparr> \<and>
   ext_job_add_arg ext_job s =
     ext_job\<lparr>argv := argv (ext_job_add_arg ext_job s),
              argc := argc (ext_job_add_arg ext_job s)\<rparr> \<and>
   priority (ext_job_set_portable_exe ext_job s) = priority ext_job \<and>
   priority (ext_job_set_init_code ext_job s) = priority ext_job \<and>
   priority (ext_job_set_stdout_file ext_job s) = priority ext_job \<and>
   priority (ext_job_set_target_file ext_job s) = priority ext_job \<and>
   priority (ext_job_set_stdin_file ext_job s) = priority ext_job \<and>
   priority (ext_job_set_stderr_file ext_job s) = priority ext_job \<and>
   priority (ext_job_add_platform_exe ext_job k v) = priority ext_job \<and>
   priority (ext_job_add_environment ext_job k v) = priority ext_job \<and>
   priority (ext_job_add_arg ext_job s) = priority ext_job"
  by (simp add: setter_defs ext_job_add_platform_exe_def ext_job_add_environment_def
        ext_job_add_arg_def Let_def)

theorem mutator_frame_witness:
  "ext_job_add_arg (ext_job_alloc 1) ''a'' =
     (ext_job_alloc 1)\<lparr>argv := [Some ''a''], argc := 1\<rparr> \<and>
   ext_job_set_stdin_file (ext_job_alloc 1) ''in'' =
     (ext_job_alloc 1)\<lparr>stdin_file := Some ''in''\<rparr> \<and>
   ext_job_add_environment (ext_job_alloc 1) ''K'' ''v'' =
     (ext_job_alloc 1)\<lparr>environment := [(''K'', ''v'')]\<rparr> \<and>
   priority (ext_job_add_arg (ext_job_alloc 1) ''a'') = 1"
  using mutator_frame
          [where ext_job = "ext_job_alloc 1" and s = "''a''" and k = "''K''" and v = "''v''"]
        mutator_frame
          [where ext_job = "ext_job_alloc 1" and s = "''in''" and k = "''K''" and v = "''v''"]
  by (simp add: mutator_defs)

end
